theory Spec2Isabelle
  imports Main "HOL-Library.Word"
begin

section \<open>The program \<open>src/code/ch2/example.c\<close>\<close>

text \<open>
  The translation unit has three objects with static storage duration and two functions:
  \<^verbatim>\<open>
   4  const char message[] = "Hello from ELF!";
   5  int initialized_var = 42;
   6  int uninitialized_var;
   7
   8  void print_message() {
   9      printf("%s\n", message);
  10  }
  11
  12  int main() {
  13      uninitialized_var = initialized_var;
  14      print_message();
  15      return 0;
  16  }
  \<close>
  The model is a shallow embedding: the process memory and its two output streams are a
  record, each statement is a function on that record, and an execution is the list of
  the states at the successive program points.
\<close>

subsection \<open>Data\<close>

text \<open>A C \<open>int\<close> is a 32-bit word, read as a signed number by \<open>sint\<close>.\<close>

type_synonym c_int = "32 word"

text \<open>
  A program point is named by the line that is about to execute. \<open>Print_10\<close> is the closing
  brace of \<open>print_message\<close> (the call to \<open>printf\<close> has returned), \<open>Exited\<close> is the point
  after \<open>main\<close> has returned.
\<close>

datatype pc = Main_13 | Main_14 | Print_9 | Print_10 | Main_15 | Exited

text \<open>
  The actions a run performs, in the order it performs them. \<open>Printf_stdout out r\<close> is the
  call of line 9: \<open>out\<close> is the text that \<open>printf\<close> has formatted for the standard output
  stream and \<open>r\<close> is the value that \<open>printf\<close> returns.
\<close>

datatype action =
    Store_uninitialized_var c_int
  | Call_print_message
  | Printf_stdout string int
  | Return_main c_int

text \<open>
  What the caller of the program chooses: the argument list, and whether the standard
  output stream accepts data (a closed or full stream does not).
\<close>

record invocation =
  argv :: "string list"
  stdout_available :: bool

text \<open>
  The process: the three objects of lines 4 to 6, the argument list as the C runtime holds
  it, the bytes that the two output streams have received, the exit status once \<open>main\<close> has
  returned, the program point and the actions performed so far.
\<close>

record state =
  message :: string
  initialized_var :: c_int
  uninitialized_var :: c_int
  args :: "string list"
  stdout_bytes :: string
  stderr_bytes :: string
  exit_code :: "c_int option"
  pc :: pc
  trace :: "action list"

subsection \<open>The C library\<close>

text \<open>
  A C string is the bytes of a character array up to its first null byte; the conversion
  \<open>%s\<close> prints exactly these.
\<close>

definition c_str :: "string \<Rightarrow> string" where
  "c_str bytes = takeWhile (\<lambda>c. c \<noteq> CHR 0x00) bytes"

text \<open>
  \<open>printf("%s\n", arg)\<close> of the C library (ISO C, 7.21.6.3): it formats the C string \<open>arg\<close>
  followed by a newline for the standard output stream and returns the number of
  characters transmitted, or a negative value when an output error occurred. The stream
  receives the text when it is available; an unavailable stream receives nothing and the
  call reports the error \<open>- 1\<close>. Nothing else of the process changes.
\<close>

definition printf_s_nl :: "invocation \<Rightarrow> string \<Rightarrow> state \<Rightarrow> int \<times> state" where
  "printf_s_nl iv arg s =
     (let out = c_str arg @ [CHR 0x0A] in
      if stdout_available iv
      then (int (length out),
            s\<lparr>stdout_bytes := stdout_bytes s @ out,
              trace := trace s @ [Printf_stdout out (int (length out))]\<rparr>)
      else (- 1, s\<lparr>trace := trace s @ [Printf_stdout out (- 1)]\<rparr>))"

subsection \<open>Program start\<close>

text \<open>
  Line 4 gives \<open>message\<close> sixteen bytes, the fifteen characters and the terminating null
  byte. Line 5 initialises \<open>initialized_var\<close> to 42. Line 6 has no initialiser: an object
  with static storage duration that is not initialised explicitly starts at zero (ISO C,
  6.7.9). Both streams are empty and the runtime is about to enter \<open>main\<close>.
\<close>

definition startup :: "invocation \<Rightarrow> state" where
  "startup iv =
     \<lparr>message = ''Hello from ELF!'' @ [CHR 0x00],
      initialized_var = 42,
      uninitialized_var = 0,
      args = argv iv,
      stdout_bytes = [],
      stderr_bytes = [],
      exit_code = None,
      pc = Main_13,
      trace = []\<rparr>"

subsection \<open>The functions\<close>

text \<open>
  Lines 8 to 10. The states at the two program points of \<open>print_message\<close>: on entry, and
  after the call of \<open>printf\<close>, whose return value the statement drops.
\<close>

definition print_message_points :: "invocation \<Rightarrow> state \<Rightarrow> state list" where
  "print_message_points iv s =
     (let s9 = s\<lparr>pc := Print_9\<rparr>;
          s10 = (snd (printf_s_nl iv (message s9) s9))\<lparr>pc := Print_10\<rparr>
      in [s9, s10])"

definition print_message :: "invocation \<Rightarrow> state \<Rightarrow> state" where
  "print_message iv s = last (print_message_points iv s)"

text \<open>
  Lines 12 to 16. \<open>main\<close> declares no parameter, so it has no name for the argument list.
  Line 13 copies \<open>initialized_var\<close> into \<open>uninitialized_var\<close>, line 14 calls
  \<open>print_message\<close> and line 15 returns 0, which becomes the exit status.
\<close>

definition main_points :: "invocation \<Rightarrow> state \<Rightarrow> state list" where
  "main_points iv s =
     (let s13 = s\<lparr>pc := Main_13\<rparr>;
          s14 = s13\<lparr>uninitialized_var := initialized_var s13,
                    trace := trace s13 @ [Store_uninitialized_var (initialized_var s13)],
                    pc := Main_14\<rparr>;
          ps = print_message_points iv (s14\<lparr>trace := trace s14 @ [Call_print_message]\<rparr>);
          s15 = (last ps)\<lparr>pc := Main_15\<rparr>;
          sx = s15\<lparr>exit_code := Some 0,
                   trace := trace s15 @ [Return_main 0],
                   pc := Exited\<rparr>
      in [s13, s14] @ ps @ [s15, sx])"

definition main :: "invocation \<Rightarrow> state \<Rightarrow> state" where
  "main iv s = last (main_points iv s)"

text \<open>A run of the program: the runtime sets the process up and calls \<open>main\<close>.\<close>

definition execution :: "invocation \<Rightarrow> state list" where
  "execution iv = main_points iv (startup iv)"

definition final :: "invocation \<Rightarrow> state" where
  "final iv = main iv (startup iv)"

subsection \<open>Classifying actions and program points\<close>

text \<open>The actions that \<open>main\<close> itself performs; the call of \<open>printf\<close> is \<open>print_message\<close>'s.\<close>

fun performed_by_main :: "action \<Rightarrow> bool" where
  "performed_by_main (Store_uninitialized_var v) = True"
| "performed_by_main Call_print_message = True"
| "performed_by_main (Printf_stdout out r) = False"
| "performed_by_main (Return_main v) = True"

text \<open>The actions that store into \<open>uninitialized_var\<close>.\<close>

fun writes_uninitialized_var :: "action \<Rightarrow> bool" where
  "writes_uninitialized_var (Store_uninitialized_var v) = True"
| "writes_uninitialized_var Call_print_message = False"
| "writes_uninitialized_var (Printf_stdout out r) = False"
| "writes_uninitialized_var (Return_main v) = False"

text \<open>
  The side effects that can be observed from outside the process: operations on a stream.
  A store into a variable stays inside the process.
\<close>

fun observable_effect :: "action \<Rightarrow> bool" where
  "observable_effect (Store_uninitialized_var v) = False"
| "observable_effect Call_print_message = False"
| "observable_effect (Printf_stdout out r) = True"
| "observable_effect (Return_main v) = False"

text \<open>An action that reports an error: a call of \<open>printf\<close> that returns a negative value.\<close>

fun failed :: "action \<Rightarrow> bool" where
  "failed (Store_uninitialized_var v) = False"
| "failed Call_print_message = False"
| "failed (Printf_stdout out r) = (r < 0)"
| "failed (Return_main v) = False"

text \<open>The program points that lie after the assignment of line 13.\<close>

fun after_assignment :: "pc \<Rightarrow> bool" where
  "after_assignment Main_13 = False"
| "after_assignment Main_14 = True"
| "after_assignment Print_9 = True"
| "after_assignment Print_10 = True"
| "after_assignment Main_15 = True"
| "after_assignment Exited = True"

text \<open>
  The steps of a run in which the value of \<open>uninitialized_var\<close> changes: the pairs of
  neighbouring states that differ in it.
\<close>

definition mutations_of_uninitialized_var :: "state list \<Rightarrow> (state \<times> state) list" where
  "mutations_of_uninitialized_var ss =
     filter (\<lambda>(s, s'). uninitialized_var s \<noteq> uninitialized_var s') (zip ss (tl ss))"

section \<open>Unfolding a run\<close>

lemmas run_defs =
  execution_def final_def main_def main_points_def print_message_def
  print_message_points_def printf_s_nl_def startup_def c_str_def Let_def

text \<open>The six states of a run, written out.\<close>

lemma execution_states:
  "execution iv =
    (let msg = ''Hello from ELF!'' @ [CHR 0x00];
         out = (if stdout_available iv then ''Hello from ELF!'' @ [CHR 0x0A] else []);
         call = Printf_stdout (''Hello from ELF!'' @ [CHR 0x0A])
                  (if stdout_available iv then 16 else - 1)
     in
     [\<lparr>message = msg, initialized_var = 42, uninitialized_var = 0, args = argv iv,
       stdout_bytes = [], stderr_bytes = [], exit_code = None, pc = Main_13, trace = []\<rparr>,
      \<lparr>message = msg, initialized_var = 42, uninitialized_var = 42, args = argv iv,
       stdout_bytes = [], stderr_bytes = [], exit_code = None, pc = Main_14,
       trace = [Store_uninitialized_var 42]\<rparr>,
      \<lparr>message = msg, initialized_var = 42, uninitialized_var = 42, args = argv iv,
       stdout_bytes = [], stderr_bytes = [], exit_code = None, pc = Print_9,
       trace = [Store_uninitialized_var 42, Call_print_message]\<rparr>,
      \<lparr>message = msg, initialized_var = 42, uninitialized_var = 42, args = argv iv,
       stdout_bytes = out, stderr_bytes = [], exit_code = None, pc = Print_10,
       trace = [Store_uninitialized_var 42, Call_print_message, call]\<rparr>,
      \<lparr>message = msg, initialized_var = 42, uninitialized_var = 42, args = argv iv,
       stdout_bytes = out, stderr_bytes = [], exit_code = None, pc = Main_15,
       trace = [Store_uninitialized_var 42, Call_print_message, call]\<rparr>,
      \<lparr>message = msg, initialized_var = 42, uninitialized_var = 42, args = argv iv,
       stdout_bytes = out, stderr_bytes = [], exit_code = Some 0, pc = Exited,
       trace = [Store_uninitialized_var 42, Call_print_message, call, Return_main 0]\<rparr>])"
  by (simp add: run_defs)

lemma c_str_message: "c_str (message (startup iv)) = ''Hello from ELF!''"
  by (simp add: startup_def c_str_def)

lemma final_is_last: "final iv = last (execution iv)"
  by (simp add: final_def main_def execution_def)

lemma final_in_execution: "final iv \<in> set (execution iv)"
  by (simp add: run_defs)

lemma execution_pcs:
  "map pc (execution iv) = [Main_13, Main_14, Print_9, Print_10, Main_15, Exited]"
  by (simp add: run_defs)

lemma final_trace:
  "trace (final iv) =
     [Store_uninitialized_var 42, Call_print_message,
      Printf_stdout (''Hello from ELF!'' @ [CHR 0x0A]) (if stdout_available iv then 16 else - 1),
      Return_main 0]"
  by (simp add: run_defs)

lemma final_exit_code: "exit_code (final iv) = Some 0"
  by (simp add: run_defs)

lemma final_stdout:
  "stdout_bytes (final iv) =
     (if stdout_available iv then ''Hello from ELF!'' @ [CHR 0x0A] else [])"
  by (simp add: run_defs)

lemma final_stderr: "stderr_bytes (final iv) = []"
  by (simp add: run_defs)

lemma final_pc: "pc (final iv) = Exited"
  by (simp add: run_defs)

lemma print_message_stdout:
  "stdout_bytes (print_message iv s) =
     (if stdout_available iv then stdout_bytes s @ c_str (message s) @ [CHR 0x0A]
      else stdout_bytes s)"
  by (simp add: print_message_def print_message_points_def printf_s_nl_def Let_def)

lemma print_message_trace:
  "trace (print_message iv s) =
     trace s @ [Printf_stdout (c_str (message s) @ [CHR 0x0A])
                  (if stdout_available iv then int (length (c_str (message s) @ [CHR 0x0A]))
                   else - 1)]"
  by (simp add: print_message_def print_message_points_def printf_s_nl_def Let_def)

lemma print_message_frame:
  "message (print_message iv s) = message s \<and>
   initialized_var (print_message iv s) = initialized_var s \<and>
   uninitialized_var (print_message iv s) = uninitialized_var s \<and>
   args (print_message iv s) = args s \<and>
   stderr_bytes (print_message iv s) = stderr_bytes s \<and>
   exit_code (print_message iv s) = exit_code s"
  by (simp add: print_message_def print_message_points_def printf_s_nl_def Let_def)

section \<open>Properties of the program\<close>

text \<open>
  C1. For every invocation with no arguments in which the standard output stream is
  available, the standard output receives exactly \<open>Hello from ELF!\<close> and one newline, the
  standard error receives nothing, and the run ends with exit code 0.
\<close>

theorem hello_output_when_stdout_available:
  assumes "argv iv = []" and "stdout_available iv"
  shows "stdout_bytes (final iv) = ''Hello from ELF!'' @ [CHR 0x0A] \<and>
         stderr_bytes (final iv) = [] \<and>
         exit_code (final iv) = Some 0 \<and>
         pc (final iv) = Exited"
  using assms by (simp add: run_defs)

theorem hello_output_when_stdout_available_witness:
  "stdout_bytes (final \<lparr>argv = [], stdout_available = True\<rparr>) = ''Hello from ELF!'' @ [CHR 0x0A] \<and>
   stderr_bytes (final \<lparr>argv = [], stdout_available = True\<rparr>) = [] \<and>
   exit_code (final \<lparr>argv = [], stdout_available = True\<rparr>) = Some 0"
  using hello_output_when_stdout_available [of "\<lparr>argv = [], stdout_available = True\<rparr>"]
  by simp

text \<open>
  Without the precondition the statement of C1 fails: with no arguments and a standard
  output stream that does not accept data, the stream receives nothing.
\<close>

theorem hello_output_closed_stdout_counterexample:
  "argv \<lparr>argv = [], stdout_available = False\<rparr> = [] \<and>
   stdout_bytes (final \<lparr>argv = [], stdout_available = False\<rparr>) = [] \<and>
   stdout_bytes (final \<lparr>argv = [], stdout_available = False\<rparr>)
     \<noteq> ''Hello from ELF!'' @ [CHR 0x0A]"
  by (simp add: run_defs)

text \<open>
  C2. On every invocation the entry point performs exactly three actions, in this order:
  it stores the value of \<open>initialized_var\<close> into \<open>uninitialized_var\<close>, it calls
  \<open>print_message\<close>, and it returns 0. The only other action of the run is the call of
  \<open>printf\<close> that \<open>print_message\<close> makes between the second and the third.
\<close>

theorem main_performs_three_actions:
  "filter performed_by_main (trace (final iv)) =
     [Store_uninitialized_var (initialized_var (startup iv)), Call_print_message, Return_main 0] \<and>
   trace (final iv) =
     [Store_uninitialized_var (initialized_var (startup iv)), Call_print_message,
      Printf_stdout (''Hello from ELF!'' @ [CHR 0x0A]) (if stdout_available iv then 16 else - 1),
      Return_main 0] \<and>
   map pc (execution iv) = [Main_13, Main_14, Print_9, Print_10, Main_15, Exited] \<and>
   uninitialized_var (final iv) = initialized_var (startup iv) \<and>
   exit_code (final iv) = Some 0"
  by (simp add: run_defs)

text \<open>
  C3. \<open>initialized_var\<close> is 42 at program start, and at every program point after the
  assignment of line 13 \<open>uninitialized_var\<close> equals \<open>initialized_var\<close>, which is 42, until
  the program has exited.
\<close>

theorem vars_equal_after_assignment:
  "initialized_var (startup iv) = 42 \<and>
   (\<forall>s \<in> set (execution iv). after_assignment (pc s) \<longrightarrow>
      uninitialized_var s = initialized_var s \<and> initialized_var s = 42)"
  by (simp add: run_defs)

theorem vars_equal_after_assignment_witness:
  "after_assignment (pc (final \<lparr>argv = [], stdout_available = True\<rparr>)) \<and>
   uninitialized_var (final \<lparr>argv = [], stdout_available = True\<rparr>) = 42"
proof -
  let ?iv = "\<lparr>argv = [], stdout_available = True\<rparr>"
  have after: "after_assignment (pc (final ?iv))"
    by (simp add: run_defs)
  from vars_equal_after_assignment [of ?iv] final_in_execution [of ?iv] after
  have "uninitialized_var (final ?iv) = initialized_var (final ?iv) \<and>
        initialized_var (final ?iv) = 42"
    by blast
  with after show ?thesis by simp
qed

text \<open>
  C4. Whenever \<open>print_message\<close> is invoked while the standard output stream is available,
  the stream receives the C string held in \<open>message\<close> (which is \<open>Hello from ELF!\<close>)
  followed by exactly one newline, and the standard error receives nothing; in a run of
  the program this write is the single observable side effect.
\<close>

theorem print_message_writes_message_line:
  assumes "stdout_available iv"
  shows "stdout_bytes (print_message iv s) = stdout_bytes s @ c_str (message s) @ [CHR 0x0A] \<and>
         stderr_bytes (print_message iv s) = stderr_bytes s \<and>
         filter observable_effect (trace (print_message iv s)) =
           filter observable_effect (trace s) @
           [Printf_stdout (c_str (message s) @ [CHR 0x0A])
              (int (length (c_str (message s) @ [CHR 0x0A])))] \<and>
         c_str (message (startup iv)) = ''Hello from ELF!'' \<and>
         filter observable_effect (trace (final iv)) =
           [Printf_stdout (''Hello from ELF!'' @ [CHR 0x0A]) 16] \<and>
         stdout_bytes (final iv) = ''Hello from ELF!'' @ [CHR 0x0A] \<and>
         stderr_bytes (final iv) = []"
  using assms
  by (simp add: print_message_stdout print_message_trace print_message_frame
      c_str_message final_trace final_stdout final_stderr)

theorem print_message_writes_message_line_witness:
  "stdout_bytes (print_message \<lparr>argv = [], stdout_available = True\<rparr>
     (startup \<lparr>argv = [], stdout_available = True\<rparr>)) = ''Hello from ELF!'' @ [CHR 0x0A] \<and>
   filter observable_effect (trace (final \<lparr>argv = [], stdout_available = True\<rparr>)) =
     [Printf_stdout (''Hello from ELF!'' @ [CHR 0x0A]) 16]"
  using print_message_writes_message_line
    [of "\<lparr>argv = [], stdout_available = True\<rparr>" "startup \<lparr>argv = [], stdout_available = True\<rparr>"]
  by (simp add: startup_def)

text \<open>
  Without the precondition the statement of C4 fails: invoked while the standard output
  stream does not accept data, \<open>print_message\<close> leaves the stream as it was.
\<close>

theorem print_message_closed_stdout_counterexample:
  "stdout_bytes (print_message \<lparr>argv = [], stdout_available = False\<rparr>
     (startup \<lparr>argv = [], stdout_available = False\<rparr>)) = [] \<and>
   stdout_bytes (print_message \<lparr>argv = [], stdout_available = False\<rparr>
     (startup \<lparr>argv = [], stdout_available = False\<rparr>))
   \<noteq> stdout_bytes (startup \<lparr>argv = [], stdout_available = False\<rparr>) @
     c_str (message (startup \<lparr>argv = [], stdout_available = False\<rparr>)) @ [CHR 0x0A]"
  by (simp add: run_defs)

text \<open>
  C5. The constant \<open>message\<close> holds the text \<open>Hello from ELF!\<close> from program start and its
  contents are the same at every point of every execution: no statement of \<open>main\<close> or of
  \<open>print_message\<close> changes it, whatever the state they start from.
\<close>

theorem message_never_changes:
  "c_str (message (startup iv)) = ''Hello from ELF!'' \<and>
   (\<forall>s \<in> set (execution iv). message s = ''Hello from ELF!'' @ [CHR 0x00]) \<and>
   (\<forall>s' \<in> set (main_points iv s). message s' = message s) \<and>
   (\<forall>s' \<in> set (print_message_points iv s). message s' = message s)"
  by (simp add: run_defs)

theorem message_never_changes_witness:
  "c_str (message (final \<lparr>argv = [], stdout_available = True\<rparr>)) = ''Hello from ELF!''"
proof -
  let ?iv = "\<lparr>argv = [], stdout_available = True\<rparr>"
  from message_never_changes [of ?iv "startup ?iv"] final_in_execution [of ?iv]
  have "message (final ?iv) = ''Hello from ELF!'' @ [CHR 0x00]"
    by blast
  then show ?thesis by (simp add: c_str_def)
qed

text \<open>
  C6. \<open>uninitialized_var\<close> is mutated exactly once in any execution: the only action that
  stores into it is the assignment of line 13, which stores the value of
  \<open>initialized_var\<close>, and the step from line 13 to line 14, which takes it from 0 to
  that value, is the only step of the run across which its value differs.
\<close>

theorem uninitialized_var_mutated_once:
  "filter writes_uninitialized_var (trace (final iv)) =
     [Store_uninitialized_var (initialized_var (startup iv))] \<and>
   map (\<lambda>(s, s'). (pc s, uninitialized_var s, pc s', uninitialized_var s'))
     (mutations_of_uninitialized_var (execution iv)) =
     [(Main_13, 0, Main_14, initialized_var (startup iv))] \<and>
   uninitialized_var (print_message iv s) = uninitialized_var s"
  by (simp add: execution_states final_trace print_message_frame startup_def Let_def
      mutations_of_uninitialized_var_def)

text \<open>
  C7. The program does not read its arguments: two runs that are given any two argument
  lists, the standard output stream being in the same condition \<open>b\<close> for both, produce the
  same standard output, the same standard error and the same exit code. The runtime holds
  each run's own argument list, so the two runs do differ in their input. The exit code is
  the same even when the two runs differ in the condition of the stream as well.
\<close>

theorem arguments_do_not_affect_output:
  "stdout_bytes (final \<lparr>argv = a1, stdout_available = b\<rparr>) =
     stdout_bytes (final \<lparr>argv = a2, stdout_available = b\<rparr>) \<and>
   stderr_bytes (final \<lparr>argv = a1, stdout_available = b\<rparr>) =
     stderr_bytes (final \<lparr>argv = a2, stdout_available = b\<rparr>) \<and>
   exit_code (final \<lparr>argv = a1, stdout_available = b\<rparr>) =
     exit_code (final \<lparr>argv = a2, stdout_available = b'\<rparr>) \<and>
   args (final \<lparr>argv = a1, stdout_available = b\<rparr>) = a1 \<and>
   args (final \<lparr>argv = a2, stdout_available = b\<rparr>) = a2"
  by (simp add: run_defs)

text \<open>
  C8. When the standard output stream is available, nothing in a run fails: the call of
  \<open>printf\<close> returns a count that is not negative, \<open>print_message\<close> adds no failed action
  from whatever state it is invoked in, no action of the run reports an error, and the
  run reaches the exit with code 0.
\<close>

theorem no_failure_when_stdout_available:
  assumes "stdout_available iv"
  shows "0 \<le> fst (printf_s_nl iv arg s) \<and>
         filter failed (trace (print_message iv s)) = filter failed (trace s) \<and>
         (\<forall>a \<in> set (trace (final iv)). \<not> failed a) \<and>
         pc (final iv) = Exited \<and>
         exit_code (final iv) = Some 0"
  using assms
  by (simp add: final_trace print_message_trace final_exit_code final_pc printf_s_nl_def Let_def)

theorem no_failure_when_stdout_available_witness:
  "\<not> failed (Printf_stdout (''Hello from ELF!'' @ [CHR 0x0A]) 16) \<and>
   Printf_stdout (''Hello from ELF!'' @ [CHR 0x0A]) 16
     \<in> set (trace (final \<lparr>argv = [], stdout_available = True\<rparr>)) \<and>
   exit_code (final \<lparr>argv = [], stdout_available = True\<rparr>) = Some 0"
proof -
  let ?iv = "\<lparr>argv = [], stdout_available = True\<rparr>"
  have mem: "Printf_stdout (''Hello from ELF!'' @ [CHR 0x0A]) 16 \<in> set (trace (final ?iv))"
    by (simp add: final_trace)
  have avail: "stdout_available ?iv"
    by simp
  from no_failure_when_stdout_available [OF avail, of "[]" "startup ?iv"] mem
  show ?thesis by blast
qed

text \<open>
  C9. \<open>uninitialized_var\<close> has static storage duration, so it is 0 at program start and at
  every program point before the assignment of line 13; the point at which the run starts
  is such a point.
\<close>

theorem uninitialized_var_zero_before_assignment:
  "uninitialized_var (startup iv) = 0 \<and>
   (\<forall>s \<in> set (execution iv). \<not> after_assignment (pc s) \<longrightarrow> uninitialized_var s = 0) \<and>
   \<not> after_assignment (pc (hd (execution iv)))"
  by (simp add: run_defs)

theorem uninitialized_var_zero_before_assignment_witness:
  "uninitialized_var (hd (execution \<lparr>argv = [], stdout_available = True\<rparr>)) = 0"
proof -
  let ?iv = "\<lparr>argv = [], stdout_available = True\<rparr>"
  have mem: "hd (execution ?iv) \<in> set (execution ?iv)"
    by (simp add: run_defs)
  from uninitialized_var_zero_before_assignment [of ?iv] mem
  show ?thesis by blast
qed

text \<open>
  C10. The exit code is 0 on every invocation. \<open>print_message\<close> keeps the state that
  \<open>printf\<close> leaves and drops the value it returns, so the exit code is 0 also on an
  invocation whose standard output stream is unavailable, where the call of \<open>printf\<close>
  returns a negative value and is the one action of the run that fails.
\<close>

theorem exit_code_zero_even_if_write_fails:
  "exit_code (final iv) = Some 0 \<and>
   print_message iv s = (snd (printf_s_nl iv (message s) (s\<lparr>pc := Print_9\<rparr>)))\<lparr>pc := Print_10\<rparr> \<and>
   fst (printf_s_nl (iv\<lparr>stdout_available := False\<rparr>) (message s) s) < 0 \<and>
   filter failed (trace (final (iv\<lparr>stdout_available := False\<rparr>))) =
     [Printf_stdout (''Hello from ELF!'' @ [CHR 0x0A]) (- 1)] \<and>
   exit_code (final (iv\<lparr>stdout_available := False\<rparr>)) = Some 0"
  by (simp add: run_defs)

end
